theory Spec2Isabelle
  imports Complex_Main "HOL-Library.Sublist" "HOL-Library.Word"
begin

section \<open>The subclass example of autocxx: messages.h and messages.cc\<close>

text \<open>
  The C++ side of the example keeps two process-wide vectors of references, one to
  message producers and one to message displayers, and \<open>run_demo\<close> walks both. The
  embedding threads one record, the world, through every function: the two vectors,
  the characters written to \<open>std::cout\<close>, the free store, the state of the foreign
  (Rust) side, and a log of the virtual calls made.
\<close>

subsection \<open>Values, pointers and the free store\<close>

type_synonym addr = nat

text \<open>
  A pointer value. \<open>Indeterminate\<close> is the value of a pointer that was never
  assigned (a default-initialised member, a fresh array element).
\<close>

datatype pointer = Indeterminate | Null | At addr

text \<open>
  A \<open>float\<close>. Nothing is computed with it: it is stored, loaded and handed to the
  output stream.
\<close>

datatype cfloat = FloatVal real | FloatInf bool | FloatNaN

text \<open>
  An object of the free store: an array of pointers (\<open>new float*[n]\<close>) or an array of
  floats (\<open>new float[n]\<close>); a float element that was never assigned is \<open>None\<close>.
\<close>

datatype obj = PtrArray "pointer list" | FloatArray "cfloat option list"

type_synonym memory = "addr \<rightharpoonup> obj"

datatype error = UndefinedBehaviour

text \<open>
  Modelled from the spec: the member \<open>data\<close> of \<open>MyPod\<close>, which the
  declaration in messages.h (lines 17 to 24) has commented out, while messages.cc
  reads and writes \<open>pod.data\<close> as a \<open>float**\<close>; the spec calls it a 2D
  floating-point buffer, heap-allocated. The other two members are the declared ones,
  \<open>int foo\<close> (32 bits) and \<open>char* bar\<close>. A member that was never assigned is
  \<open>None\<close>, respectively \<open>Indeterminate\<close>.
\<close>

record MyPod =
  foo :: "32 word option"
  bar :: pointer
  data :: pointer

subsection \<open>The two class hierarchies and the world\<close>

text \<open>
  A reference to a \<open>MessageProducer\<close> refers either to the one object of the
  file-local class \<open>CppExampleProducer\<close> (the global \<open>cpp_producer\<close>) or to an
  object implemented outside messages.cc, named by a number. The same for
  \<open>MessageDisplayer\<close> and \<open>cpp_displayer\<close>.
\<close>

datatype MessageProducer = CppExampleProducer | ForeignProducer nat

datatype MessageDisplayer = CppExampleDisplayer | ForeignDisplayer nat

abbreviation cpp_producer :: MessageProducer where
  "cpp_producer \<equiv> CppExampleProducer"

abbreviation cpp_displayer :: MessageDisplayer where
  "cpp_displayer \<equiv> CppExampleDisplayer"

text \<open>The virtual calls made through a reference of a registry, as they happen.\<close>

datatype call =
    Call_get_message MessageProducer string
  | Call_display_message MessageDisplayer string
  | Call_do_something_pod MessageDisplayer

text \<open>
  The world: the globals \<open>producers\<close> and \<open>displayers\<close> of messages.cc (lines 43
  and 44), the characters written to \<open>std::cout\<close> so far, the free store with the
  address the next \<open>new\<close> returns, the number of calls of \<open>std::time\<close> so far, the
  state of the foreign side, and the log of virtual calls (\<open>get_message\<close> is logged
  with the string it returned).
\<close>

record 'e world =
  producers :: "MessageProducer list"
  displayers :: "MessageDisplayer list"
  cout :: string
  mem :: memory
  brk :: addr
  time_calls :: nat
  foreign :: 'e
  calls :: "call list"

text \<open>
  What messages.cc calls and does not define. \<open>std_time k\<close> is the value the call
  number \<open>k\<close> of \<open>std::time(nullptr)\<close> returns (a \<open>time_t\<close>, signed; no arithmetic
  is done on it); \<open>asctime_localtime\<close> is \<open>std::asctime(std::localtime(&t))\<close>;
  \<open>float_out\<close> is the text \<open>operator<<\<close> writes for a \<open>float\<close>. The three
  \<open>foreign_\<close> functions are the overrides of the objects implemented outside
  messages.cc: they act on the foreign state, and \<open>do_something_pod\<close>, which gets
  the record by mutable reference, may also rewrite the record and the free store.
  All six are total functions: a clock or calendar call that fails otherwise than by
  its return value, and a foreign override that throws or never returns, are left out.
  The foreign overrides reach neither the two registries nor \<open>std::cout\<close>.
\<close>

record 'e env =
  std_time :: "nat \<Rightarrow> int"
  asctime_localtime :: "int \<Rightarrow> string"
  float_out :: "cfloat \<Rightarrow> string"
  foreign_get_message :: "nat \<Rightarrow> 'e \<Rightarrow> string \<times> 'e"
  foreign_display_message :: "nat \<Rightarrow> string \<Rightarrow> 'e \<Rightarrow> 'e"
  foreign_do_something_pod :: "nat \<Rightarrow> MyPod \<Rightarrow> memory \<Rightarrow> 'e \<Rightarrow> MyPod \<times> memory \<times> 'e"

subsection \<open>The output stream\<close>

abbreviation newline :: char where
  "newline \<equiv> CHR 0x0A"

definition cout_put :: "string \<Rightarrow> 'e world \<Rightarrow> 'e world" where
  "cout_put s w = w\<lparr>cout := cout w @ s\<rparr>"

definition cout_endl :: "'e world \<Rightarrow> 'e world" where
  "cout_endl w = w\<lparr>cout := cout w @ [newline]\<rparr>"

text \<open>
  \<open>operator<<\<close> for a signed integer: the decimal digits, most significant first,
  after a minus sign when the value is negative.
\<close>

definition digit_char :: "nat \<Rightarrow> char" where
  "digit_char d = ''0123456789'' ! d"

function dec :: "nat \<Rightarrow> string" where
  "dec n = (if n < 10 then [digit_char n] else dec (n div 10) @ [digit_char (n mod 10)])"
  by pat_completeness auto
termination
  by (relation "measure (\<lambda>n. n)") auto

declare dec.simps [simp del]

definition signed_out :: "int \<Rightarrow> string" where
  "signed_out i = (if i < 0 then CHR ''-'' # dec (nat (- i)) else dec (nat i))"

text \<open>
  Reading a string as a non-negative integer: it succeeds on a non-empty string of
  decimal digits only. This is the reading of "parsable as a non-negative integer"
  that the statements below use; it is no part of messages.cc.
\<close>

definition is_digit :: "char \<Rightarrow> bool" where
  "is_digit c = (48 \<le> (of_char c :: nat) \<and> (of_char c :: nat) \<le> 57)"

fun parse_acc :: "nat \<Rightarrow> string \<Rightarrow> nat option" where
  "parse_acc a [] = Some a"
| "parse_acc a (c # cs) =
     (if is_digit c then parse_acc (10 * a + (of_char c - 48)) cs else None)"

definition parse_nat :: "string \<Rightarrow> nat option" where
  "parse_nat s = (if s = [] then None else parse_acc 0 s)"

subsection \<open>Loads, stores and operator new\<close>

text \<open>
  \<open>p[i]\<close> for a \<open>float**\<close> and for a \<open>float*\<close>. The source checks nothing: a
  pointer that is null, indeterminate or points to no array of the right kind, an
  index past the end, and the read of an element never assigned are undefined
  behaviour, which the model returns as an error.
\<close>

definition load_ptr :: "memory \<Rightarrow> pointer \<Rightarrow> nat \<Rightarrow> error + pointer" where
  "load_ptr m p i =
     (case p of
        At a \<Rightarrow>
          (case m a of
             Some (PtrArray ps) \<Rightarrow> if i < length ps then Inr (ps ! i) else Inl UndefinedBehaviour
           | _ \<Rightarrow> Inl UndefinedBehaviour)
      | _ \<Rightarrow> Inl UndefinedBehaviour)"

definition load_float :: "memory \<Rightarrow> pointer \<Rightarrow> nat \<Rightarrow> error + cfloat" where
  "load_float m p i =
     (case p of
        At a \<Rightarrow>
          (case m a of
             Some (FloatArray fs) \<Rightarrow>
               if i < length fs
               then (case fs ! i of Some v \<Rightarrow> Inr v | None \<Rightarrow> Inl UndefinedBehaviour)
               else Inl UndefinedBehaviour
           | _ \<Rightarrow> Inl UndefinedBehaviour)
      | _ \<Rightarrow> Inl UndefinedBehaviour)"

definition store_ptr :: "pointer \<Rightarrow> nat \<Rightarrow> pointer \<Rightarrow> 'e world \<Rightarrow> error + 'e world" where
  "store_ptr p i v w =
     (case p of
        At a \<Rightarrow>
          (case mem w a of
             Some (PtrArray ps) \<Rightarrow>
               if i < length ps
               then Inr (w\<lparr>mem := (mem w)(a \<mapsto> PtrArray (ps[i := v]))\<rparr>)
               else Inl UndefinedBehaviour
           | _ \<Rightarrow> Inl UndefinedBehaviour)
      | _ \<Rightarrow> Inl UndefinedBehaviour)"

definition store_float :: "pointer \<Rightarrow> nat \<Rightarrow> cfloat \<Rightarrow> 'e world \<Rightarrow> error + 'e world" where
  "store_float p i v w =
     (case p of
        At a \<Rightarrow>
          (case mem w a of
             Some (FloatArray fs) \<Rightarrow>
               if i < length fs
               then Inr (w\<lparr>mem := (mem w)(a \<mapsto> FloatArray (fs[i := Some v]))\<rparr>)
               else Inl UndefinedBehaviour
           | _ \<Rightarrow> Inl UndefinedBehaviour)
      | _ \<Rightarrow> Inl UndefinedBehaviour)"

text \<open>
  \<open>new float*[n]\<close> and \<open>new float[n]\<close>: a new object at the next address, its
  elements not initialised. Nothing in messages.cc frees an object, and the free
  store of the model never runs out.
\<close>

definition new_ptr_array :: "nat \<Rightarrow> 'e world \<Rightarrow> pointer \<times> 'e world" where
  "new_ptr_array n w =
     (At (brk w),
      w\<lparr>mem := (mem w)(brk w \<mapsto> PtrArray (replicate n Indeterminate)), brk := Suc (brk w)\<rparr>)"

definition new_float_array :: "nat \<Rightarrow> 'e world \<Rightarrow> pointer \<times> 'e world" where
  "new_float_array n w =
     (At (brk w),
      w\<lparr>mem := (mem w)(brk w \<mapsto> FloatArray (replicate n None)), brk := Suc (brk w)\<rparr>)"

subsection \<open>The native producer and the native displayer\<close>

text \<open>messages.cc, lines 22 to 28: \<open>CppExampleProducer::get_message\<close>.\<close>

definition CppExampleProducer_get_message :: "'e env \<Rightarrow> 'e world \<Rightarrow> string \<times> 'e world" where
  "CppExampleProducer_get_message E w =
     (let result = std_time E (time_calls w);
          w1 = w\<lparr>time_calls := Suc (time_calls w)\<rparr>;
          st = asctime_localtime E result @ signed_out result @ '' seconds since the Epoch''
      in (st, w1))"

text \<open>messages.cc, lines 34 to 36: \<open>CppExampleDisplayer::display_message\<close>.\<close>

definition CppExampleDisplayer_display_message :: "string \<Rightarrow> 'e world \<Rightarrow> 'e world" where
  "CppExampleDisplayer_display_message msg w =
     cout_endl (cout_put msg (cout_put ''Message: '' w))"

text \<open>
  messages.cc, lines 38 to 40: \<open>CppExampleDisplayer::do_something_pod\<close>. The record
  comes by mutable reference, so the function returns it with the world.
\<close>

definition CppExampleDisplayer_do_something_pod ::
  "'e env \<Rightarrow> MyPod \<Rightarrow> 'e world \<Rightarrow> error + (MyPod \<times> 'e world)" where
  "CppExampleDisplayer_do_something_pod E pod w =
     (case load_ptr (mem w) (data pod) 0 of
        Inl e \<Rightarrow> Inl e
      | Inr row \<Rightarrow>
          (case load_float (mem w) row 0 of
             Inl e \<Rightarrow> Inl e
           | Inr v \<Rightarrow> Inr (pod, cout_endl (cout_put (float_out E v) (cout_put ''From C++: '' w)))))"

subsection \<open>Virtual dispatch\<close>

definition MessageProducer_get_message ::
  "'e env \<Rightarrow> MessageProducer \<Rightarrow> 'e world \<Rightarrow> string \<times> 'e world" where
  "MessageProducer_get_message E producer w =
     (let (msg, w1) =
            (case producer of
               CppExampleProducer \<Rightarrow> CppExampleProducer_get_message E w
             | ForeignProducer k \<Rightarrow>
                 (let (s, f) = foreign_get_message E k (foreign w) in (s, w\<lparr>foreign := f\<rparr>)))
      in (msg, w1\<lparr>calls := calls w1 @ [Call_get_message producer msg]\<rparr>))"

definition MessageDisplayer_display_message ::
  "'e env \<Rightarrow> MessageDisplayer \<Rightarrow> string \<Rightarrow> 'e world \<Rightarrow> 'e world" where
  "MessageDisplayer_display_message E displayer msg w =
     (let w1 = w\<lparr>calls := calls w @ [Call_display_message displayer msg]\<rparr>
      in case displayer of
           CppExampleDisplayer \<Rightarrow> CppExampleDisplayer_display_message msg w1
         | ForeignDisplayer k \<Rightarrow> w1\<lparr>foreign := foreign_display_message E k msg (foreign w1)\<rparr>)"

definition MessageDisplayer_do_something_pod ::
  "'e env \<Rightarrow> MessageDisplayer \<Rightarrow> MyPod \<Rightarrow> 'e world \<Rightarrow> error + (MyPod \<times> 'e world)" where
  "MessageDisplayer_do_something_pod E displayer pod w =
     (let w1 = w\<lparr>calls := calls w @ [Call_do_something_pod displayer]\<rparr>
      in case displayer of
           CppExampleDisplayer \<Rightarrow> CppExampleDisplayer_do_something_pod E pod w1
         | ForeignDisplayer k \<Rightarrow>
             (let (pod1, m, f) = foreign_do_something_pod E k pod (mem w1) (foreign w1)
              in Inr (pod1, w1\<lparr>mem := m, foreign := f\<rparr>)))"

subsection \<open>Registration\<close>

text \<open>messages.cc, lines 51 to 62.\<close>

definition register_displayer :: "MessageDisplayer \<Rightarrow> 'e world \<Rightarrow> 'e world" where
  "register_displayer displayer w = w\<lparr>displayers := displayers w @ [displayer]\<rparr>"

definition register_producer :: "MessageProducer \<Rightarrow> 'e world \<Rightarrow> 'e world" where
  "register_producer producer w = w\<lparr>producers := producers w @ [producer]\<rparr>"

definition register_cpp_thingies :: "'e world \<Rightarrow> 'e world" where
  "register_cpp_thingies w = register_displayer cpp_displayer (register_producer cpp_producer w)"

subsection \<open>The demo\<close>

text \<open>
  messages.cc, lines 69 to 73: the record \<open>run_demo\<close> builds for each displayer call.
\<close>

definition make_pod :: "'e world \<Rightarrow> error + (MyPod \<times> 'e world)" where
  "make_pod w =
     (let pod0 = \<lparr>foo = None, bar = Indeterminate, data = Indeterminate\<rparr>;
          pod1 = pod0\<lparr>foo := Some 1\<rparr>;
          (p, w1) = new_ptr_array 1 w;
          pod2 = pod1\<lparr>data := p\<rparr>;
          (q, w2) = new_float_array 1 w1
      in case store_ptr (data pod2) 0 q w2 of
           Inl e \<Rightarrow> Inl e
         | Inr w3 \<Rightarrow>
             (case load_ptr (mem w3) (data pod2) 0 of
                Inl e \<Rightarrow> Inl e
              | Inr row \<Rightarrow>
                  (case store_float row 0 (FloatVal 101) w3 of
                     Inl e \<Rightarrow> Inl e
                   | Inr w4 \<Rightarrow> Inr (pod2, w4))))"

text \<open>messages.cc, lines 68 to 75: the body of the inner loop.\<close>

definition displayer_body ::
  "'e env \<Rightarrow> string \<Rightarrow> MessageDisplayer \<Rightarrow> 'e world \<Rightarrow> error + 'e world" where
  "displayer_body E msg displayer w =
     (let w1 = MessageDisplayer_display_message E displayer msg w
      in case make_pod w1 of
           Inl e \<Rightarrow> Inl e
         | Inr (pod, w2) \<Rightarrow>
             (case MessageDisplayer_do_something_pod E displayer pod w2 of
                Inl e \<Rightarrow> Inl e
              | Inr (pod1, w3) \<Rightarrow> Inr (cout_endl w3)))"

text \<open>messages.cc, lines 67 to 76: the inner loop, over the displayers.\<close>

fun displayer_loop ::
  "'e env \<Rightarrow> string \<Rightarrow> MessageDisplayer list \<Rightarrow> 'e world \<Rightarrow> error + 'e world" where
  "displayer_loop E msg [] w = Inr w"
| "displayer_loop E msg (displayer # rest) w =
     (case displayer_body E msg displayer w of
        Inl e \<Rightarrow> Inl e
      | Inr w1 \<Rightarrow> displayer_loop E msg rest w1)"

text \<open>messages.cc, lines 65 to 78: the outer loop, over the producers.\<close>

fun producer_loop :: "'e env \<Rightarrow> MessageProducer list \<Rightarrow> 'e world \<Rightarrow> error + 'e world" where
  "producer_loop E [] w = Inr w"
| "producer_loop E (producer # rest) w =
     (let (msg, w1) = MessageProducer_get_message E producer w
      in case displayer_loop E msg (displayers w1) w1 of
           Inl e \<Rightarrow> Inl e
         | Inr w2 \<Rightarrow> producer_loop E rest (cout_endl w2))"

text \<open>messages.cc, lines 64 to 79.\<close>

definition run_demo :: "'e env \<Rightarrow> 'e world \<Rightarrow> error + 'e world" where
  "run_demo E w = producer_loop E (producers w) w"

subsection \<open>Notions the statements use\<close>

text \<open>
  The calls one run of the demo is expected to make, for producers paired with the
  messages they returned: for each producer in turn its \<open>get_message\<close>, then for each
  displayer in turn \<open>display_message\<close> with that message and \<open>do_something_pod\<close>.
\<close>

definition expected_calls ::
  "(MessageProducer \<times> string) list \<Rightarrow> MessageDisplayer list \<Rightarrow> call list" where
  "expected_calls pms ds =
     concat (map (\<lambda>(p, m). Call_get_message p m #
                    concat (map (\<lambda>d. [Call_display_message d m, Call_do_something_pod d]) ds))
                 pms)"




text \<open>
  The world when the process starts: both registries are empty and nothing was
  written. The foreign state is a counter here.
\<close>

definition startup :: "nat world" where
  "startup =
     \<lparr>producers = [], displayers = [], cout = [], mem = Map.empty, brk = 0,
      time_calls = 0, foreign = 0, calls = []\<rparr>"

text \<open>
  One environment to run the definitions in: a clock that stands at 1635600000, a fixed
  calendar text (with the end of line \<open>asctime\<close> appends), and foreign objects that
  count their calls.
\<close>

definition example_env :: "nat env" where
  "example_env =
     \<lparr>std_time = (\<lambda>k. 1635600000),
      asctime_localtime = (\<lambda>t. ''Sat Oct 30 13:20:00 2021'' @ [newline]),
      float_out = (\<lambda>v. case v of
                          FloatVal r \<Rightarrow> if r = 101 then ''101'' else ''0''
                        | FloatInf b \<Rightarrow> ''inf''
                        | FloatNaN \<Rightarrow> ''nan''),
      foreign_get_message = (\<lambda>k f. (''quote'', Suc f)),
      foreign_display_message = (\<lambda>k s f. Suc f),
      foreign_do_something_pod = (\<lambda>k pod m f. (pod, m, Suc f))\<rparr>"

text \<open>
  The same environment with a clock that fails: \<open>std::time\<close> returns \<open>-1\<close>, the
  second before the Epoch.
\<close>

definition failed_clock_env :: "nat env" where
  "failed_clock_env =
     example_env\<lparr>std_time := (\<lambda>k. - 1),
       asctime_localtime := (\<lambda>t. ''Wed Dec 31 23:59:59 1969'' @ [newline])\<rparr>"

section \<open>Properties\<close>

subsection \<open>Decimal output\<close>

lemma digit_cases: "d < 10 \<Longrightarrow> d \<in> {0, 1, 2, 3, 4, 5, 6, 7, 8, 9::nat}"
  by auto

lemma digit_char_is_digit: "d < 10 \<Longrightarrow> is_digit (digit_char d)"
  using digit_cases [of d] by (auto simp add: is_digit_def digit_char_def)

lemma digit_char_value: "d < 10 \<Longrightarrow> (of_char (digit_char d) :: nat) - 48 = d"
  using digit_cases [of d] by (auto simp add: digit_char_def)

lemma parse_acc_snoc:
  "parse_acc a (cs @ [c]) =
     (case parse_acc a cs of
        None \<Rightarrow> None
      | Some v \<Rightarrow> if is_digit c then Some (10 * v + (of_char c - 48)) else None)"
  by (induction cs arbitrary: a) simp_all

lemma parse_acc_dec: "parse_acc 0 (dec n) = Some n"
proof (induction n rule: dec.induct)
  case (1 n)
  show ?case
  proof (cases "n < 10")
    case True
    then show ?thesis
      by (subst dec.simps) (simp add: digit_char_is_digit digit_char_value)
  next
    case False
    then have "parse_acc 0 (dec (n div 10)) = Some (n div 10)"
      using "1.IH" by simp
    moreover have "n mod 10 < 10"
      by simp
    ultimately show ?thesis
      using False
      by (subst dec.simps) (simp add: parse_acc_snoc digit_char_is_digit digit_char_value)
  qed
qed

lemma dec_not_Nil: "dec n \<noteq> []"
  by (subst dec.simps) simp

lemma parse_nat_dec: "parse_nat (dec n) = Some n"
  by (simp add: parse_nat_def dec_not_Nil parse_acc_dec)

lemma signed_out_nonneg: "0 \<le> i \<Longrightarrow> signed_out i = dec (nat i)"
  by (simp add: signed_out_def)

subsection \<open>The native producer\<close>

text \<open>
  C6 as stated fails. The string \<open>CppExampleProducer::get_message\<close> returns when \<open>std::time\<close> fails
  and returns \<open>-1\<close>: the count is written as "-1", which holds the substring
  "seconds since the Epoch" after it but does not read as a non-negative integer.
\<close>

theorem get_message_negative_count:
  "std_time failed_clock_env (time_calls startup) = - 1 \<and>
   fst (CppExampleProducer_get_message failed_clock_env startup) =
     ''Wed Dec 31 23:59:59 1969'' @ [newline] @ ''-1 seconds since the Epoch'' \<and>
   signed_out (std_time failed_clock_env (time_calls startup)) = ''-1'' \<and>
   parse_nat (signed_out (std_time failed_clock_env (time_calls startup))) = None"
  by (simp add: CppExampleProducer_get_message_def failed_clock_env_def example_env_def
      startup_def signed_out_def dec.simps digit_char_def parse_nat_def is_digit_def)

text \<open>
  C6, amended. Whatever the clock returns and whatever text the calendar functions
  give, the string \<open>CppExampleProducer::get_message\<close> returns contains
  "seconds since the Epoch". When the clock value is not negative, the string also
  contains the elapsed-seconds count as the clock returned it, written in decimal right
  before " seconds since the Epoch", and that substring reads as a non-negative
  integer equal to the count.
\<close>

theorem get_message_contents:
  "sublist ''seconds since the Epoch'' (fst (CppExampleProducer_get_message E w)) \<and>
   (0 \<le> std_time E (time_calls w) \<longrightarrow>
      sublist (signed_out (std_time E (time_calls w)))
        (fst (CppExampleProducer_get_message E w)) \<and>
      suffix (signed_out (std_time E (time_calls w)) @ '' seconds since the Epoch'')
        (fst (CppExampleProducer_get_message E w)) \<and>
      (\<exists>n. parse_nat (signed_out (std_time E (time_calls w))) = Some n \<and>
           int n = std_time E (time_calls w)))"
proof -
  let ?t = "std_time E (time_calls w)"
  let ?msg = "fst (CppExampleProducer_get_message E w)"
  have msg: "?msg = asctime_localtime E ?t @ signed_out ?t @ '' seconds since the Epoch''"
    by (simp add: CppExampleProducer_get_message_def Let_def)
  have a: "?msg =
      (asctime_localtime E ?t @ signed_out ?t @ '' '') @ ''seconds since the Epoch'' @ []"
    by (simp add: msg)
  have b: "?msg = asctime_localtime E ?t @ signed_out ?t @ '' seconds since the Epoch''"
    by (simp add: msg)
  have lit: "sublist ''seconds since the Epoch'' ?msg"
    unfolding sublist_def using a by blast
  have sub: "sublist (signed_out ?t) ?msg"
    unfolding sublist_def using b by blast
  have suf: "suffix (signed_out ?t @ '' seconds since the Epoch'') ?msg"
    unfolding suffix_def using b by blast
  have num: "\<exists>n. parse_nat (signed_out ?t) = Some n \<and> int n = ?t" if "0 \<le> ?t"
  proof -
    have "parse_nat (signed_out ?t) = Some (nat ?t)"
      using that by (simp add: signed_out_nonneg parse_nat_dec)
    moreover have "int (nat ?t) = ?t"
      using that by simp
    ultimately show ?thesis
      by blast
  qed
  show ?thesis
    using lit sub suf num by blast
qed

theorem get_message_contents_witness:
  "(0::int) \<le> std_time example_env (time_calls startup) \<and>
   fst (CppExampleProducer_get_message example_env startup) =
     ''Sat Oct 30 13:20:00 2021'' @ [newline] @ ''1635600000 seconds since the Epoch'' \<and>
   signed_out (std_time example_env (time_calls startup)) = ''1635600000'' \<and>
   sublist ''seconds since the Epoch'' (fst (CppExampleProducer_get_message example_env startup)) \<and>
   sublist ''1635600000'' (fst (CppExampleProducer_get_message example_env startup)) \<and>
   (\<exists>n. parse_nat ''1635600000'' = Some n \<and> int n = 1635600000)"
proof -
  have t: "std_time example_env (time_calls startup) = 1635600000"
    by (simp add: example_env_def)
  have s: "signed_out (std_time example_env (time_calls startup)) = ''1635600000''"
    by (simp add: t signed_out_def dec.simps digit_char_def)
  have m: "fst (CppExampleProducer_get_message example_env startup) =
     ''Sat Oct 30 13:20:00 2021'' @ [newline] @ ''1635600000 seconds since the Epoch''"
    by (simp add: CppExampleProducer_get_message_def example_env_def startup_def
        signed_out_def dec.simps digit_char_def)
  have "(0::int) \<le> std_time example_env (time_calls startup)"
    by (simp add: t)
  then show ?thesis
    using get_message_contents [of example_env startup] s m t by simp
qed

subsection \<open>The native displayer\<close>

text \<open>
  C5. For every message \<open>m\<close>, \<open>CppExampleDisplayer::display_message\<close> appends to
  what was written to standard output exactly "Message: ", then \<open>m\<close>, then the end of
  the line, and changes nothing else of the world.
\<close>

theorem display_message_output:
  "CppExampleDisplayer_display_message m w =
     w\<lparr>cout := cout w @ ''Message: '' @ m @ [newline]\<rparr>"
  by (simp add: CppExampleDisplayer_display_message_def cout_put_def cout_endl_def)

theorem display_message_output_witness:
  "cout (CppExampleDisplayer_display_message ''hello'' startup) = ''Message: hello'' @ [newline]"
  using display_message_output [of "''hello''" startup] by (simp add: startup_def)

text \<open>
  C3. When the buffer pointer of the record points to an array of row pointers with at
  least one row, row 0 points to an array of floats with at least one column, and a value
  \<open>v\<close> is stored at row 0, column 0, then \<open>CppExampleDisplayer::do_something_pod\<close>
  appends to standard output exactly "From C++: ", then the text of \<open>v\<close>, then the end
  of the line, and nothing else; the call changes nothing else of the world.
\<close>

theorem do_something_pod_prints:
  assumes "data pod = At a"
    and "mem w a = Some (PtrArray (At b # rows))"
    and "mem w b = Some (FloatArray (Some v # cols))"
  shows "CppExampleDisplayer_do_something_pod E pod w =
     Inr (pod, w\<lparr>cout := cout w @ ''From C++: '' @ float_out E v @ [newline]\<rparr>)"
  using assms
  by (simp add: CppExampleDisplayer_do_something_pod_def load_ptr_def load_float_def
      cout_put_def cout_endl_def)

theorem do_something_pod_prints_witness:
  "CppExampleDisplayer_do_something_pod example_env
     \<lparr>foo = Some 7, bar = Null, data = At 4\<rparr>
     (startup\<lparr>mem := [4 \<mapsto> PtrArray [At 9, Null], 9 \<mapsto> FloatArray [Some (FloatVal 101), None]]\<rparr>) =
   Inr (\<lparr>foo = Some 7, bar = Null, data = At 4\<rparr>,
        startup\<lparr>mem := [4 \<mapsto> PtrArray [At 9, Null], 9 \<mapsto> FloatArray [Some (FloatVal 101), None]],
                cout := ''From C++: 101'' @ [newline]\<rparr>)"
  using do_something_pod_prints [of "\<lparr>foo = Some 7, bar = Null, data = At 4\<rparr>" 4
      "startup\<lparr>mem := [4 \<mapsto> PtrArray [At 9, Null], 9 \<mapsto> FloatArray [Some (FloatVal 101), None]]\<rparr>"
      9 "[Null]" "FloatVal 101" "[None]" example_env]
  by (simp add: startup_def example_env_def)

text \<open>
  C9. \<open>CppExampleDisplayer::do_something_pod\<close> gets the record by mutable reference
  and does not modify it: after a call that returns, the record (its integer member,
  its \<open>char*\<close> member and its buffer pointer) is the one passed in, and the free store,
  hence every row pointer and every element of the buffer, is unchanged.
\<close>

theorem do_something_pod_frame:
  assumes "CppExampleDisplayer_do_something_pod E pod w = Inr (pod1, w1)"
  shows "pod1 = pod \<and> foo pod1 = foo pod \<and> bar pod1 = bar pod \<and> data pod1 = data pod \<and>
         mem w1 = mem w"
  using assms
  by (auto simp add: CppExampleDisplayer_do_something_pod_def cout_put_def cout_endl_def
      split: sum.splits)

theorem do_something_pod_frame_witness:
  "CppExampleDisplayer_do_something_pod example_env
     \<lparr>foo = Some 7, bar = Null, data = At 4\<rparr>
     (startup\<lparr>mem := [4 \<mapsto> PtrArray [At 9], 9 \<mapsto> FloatArray [Some (FloatVal 101)]]\<rparr>) =
   Inr (\<lparr>foo = Some 7, bar = Null, data = At 4\<rparr>,
        startup\<lparr>mem := [4 \<mapsto> PtrArray [At 9], 9 \<mapsto> FloatArray [Some (FloatVal 101)]],
                cout := ''From C++: 101'' @ [newline]\<rparr>) \<and>
   mem (startup\<lparr>mem := [4 \<mapsto> PtrArray [At 9], 9 \<mapsto> FloatArray [Some (FloatVal 101)]],
                cout := ''From C++: 101'' @ [newline]\<rparr>) =
   mem (startup\<lparr>mem := [4 \<mapsto> PtrArray [At 9], 9 \<mapsto> FloatArray [Some (FloatVal 101)]]\<rparr>)"
proof -
  let ?pod = "\<lparr>foo = Some 7, bar = Null, data = At 4\<rparr>"
  let ?w = "startup\<lparr>mem := [4 \<mapsto> PtrArray [At 9], 9 \<mapsto> FloatArray [Some (FloatVal 101)]]\<rparr>"
  let ?w1 = "?w\<lparr>cout := ''From C++: 101'' @ [newline]\<rparr>"
  have run: "CppExampleDisplayer_do_something_pod example_env ?pod ?w = Inr (?pod, ?w1)"
    by (simp add: CppExampleDisplayer_do_something_pod_def load_ptr_def load_float_def
        cout_put_def cout_endl_def startup_def example_env_def)
  show ?thesis
    using run do_something_pod_frame [OF run] by simp
qed

subsection \<open>One pass of each loop\<close>

lemma make_pod_result:
  "make_pod w =
     Inr (\<lparr>foo = Some 1, bar = Indeterminate, data = At (brk w)\<rparr>,
          w\<lparr>mem := (mem w)(brk w \<mapsto> PtrArray [At (Suc (brk w))],
                          Suc (brk w) \<mapsto> FloatArray [Some (FloatVal 101)]),
            brk := Suc (Suc (brk w))\<rparr>)"
  by (simp add: make_pod_def new_ptr_array_def new_float_array_def store_ptr_def load_ptr_def
      store_float_def fun_upd_twist)

lemma get_message_frame:
  assumes "MessageProducer_get_message E p w = (m, w1)"
  shows "cout w1 = cout w \<and> producers w1 = producers w \<and> displayers w1 = displayers w \<and>
         calls w1 = calls w @ [Call_get_message p m]"
  using assms
  by (auto simp add: MessageProducer_get_message_def CppExampleProducer_get_message_def Let_def
      split: MessageProducer.splits prod.splits)

lemma displayer_body_native:
  "displayer_body E msg CppExampleDisplayer w =
     Inr (w\<lparr>cout := cout w @ ''Message: '' @ msg @ [newline] @
                      ''From C++: '' @ float_out E (FloatVal 101) @ [newline] @ [newline],
            mem := (mem w)(brk w \<mapsto> PtrArray [At (Suc (brk w))],
                           Suc (brk w) \<mapsto> FloatArray [Some (FloatVal 101)]),
            brk := Suc (Suc (brk w)),
            calls := calls w @ [Call_display_message CppExampleDisplayer msg,
                                Call_do_something_pod CppExampleDisplayer]\<rparr>)"
  by (simp add: displayer_body_def make_pod_result MessageDisplayer_display_message_def
      MessageDisplayer_do_something_pod_def CppExampleDisplayer_display_message_def
      CppExampleDisplayer_do_something_pod_def load_ptr_def load_float_def
      cout_put_def cout_endl_def)

lemma displayer_body_foreign:
  "\<exists>w1. displayer_body E msg (ForeignDisplayer k) w = Inr w1 \<and>
     producers w1 = producers w \<and> displayers w1 = displayers w \<and>
     cout w1 = cout w @ [newline] \<and>
     calls w1 = calls w @ [Call_display_message (ForeignDisplayer k) msg,
                          Call_do_something_pod (ForeignDisplayer k)]"
  by (simp add: displayer_body_def make_pod_result MessageDisplayer_display_message_def
      MessageDisplayer_do_something_pod_def cout_endl_def split: prod.splits)

lemma displayer_body_calls:
  "\<exists>w1. displayer_body E msg d w = Inr w1 \<and>
     producers w1 = producers w \<and> displayers w1 = displayers w \<and>
     calls w1 = calls w @ [Call_display_message d msg, Call_do_something_pod d]"
proof (cases d)
  case CppExampleDisplayer
  then show ?thesis
    by (simp add: displayer_body_native)
next
  case (ForeignDisplayer k)
  then show ?thesis
    using displayer_body_foreign [of E msg k w] by auto
qed

lemma displayer_loop_calls:
  "\<exists>w1. displayer_loop E msg ds w = Inr w1 \<and>
     producers w1 = producers w \<and> displayers w1 = displayers w \<and>
     calls w1 = calls w @
       concat (map (\<lambda>d. [Call_display_message d msg, Call_do_something_pod d]) ds)"
proof (induction ds arbitrary: w)
  case Nil
  then show ?case
    by simp
next
  case (Cons d ds)
  obtain w1 where b: "displayer_body E msg d w = Inr w1" "producers w1 = producers w"
    "displayers w1 = displayers w"
    "calls w1 = calls w @ [Call_display_message d msg, Call_do_something_pod d]"
    using displayer_body_calls [of E msg d w] by blast
  obtain w2 where l: "displayer_loop E msg ds w1 = Inr w2" "producers w2 = producers w1"
    "displayers w2 = displayers w1"
    "calls w2 = calls w1 @
       concat (map (\<lambda>d. [Call_display_message d msg, Call_do_something_pod d]) ds)"
    using Cons.IH [of w1] by blast
  show ?case
    using b l by simp
qed

lemma producer_loop_calls:
  "\<exists>w1 ms. producer_loop E ps w = Inr w1 \<and> length ms = length ps \<and>
     producers w1 = producers w \<and> displayers w1 = displayers w \<and>
     calls w1 = calls w @ expected_calls (zip ps ms) (displayers w)"
proof (induction ps arbitrary: w)
  case Nil
  then show ?case
    by (simp add: expected_calls_def)
next
  case (Cons p ps)
  obtain m w1 where g: "MessageProducer_get_message E p w = (m, w1)"
    by (cases "MessageProducer_get_message E p w")
  note f = get_message_frame [OF g]
  obtain w2 where l: "displayer_loop E m (displayers w1) w1 = Inr w2"
    "producers w2 = producers w1" "displayers w2 = displayers w1"
    "calls w2 = calls w1 @
       concat (map (\<lambda>d. [Call_display_message d m, Call_do_something_pod d]) (displayers w1))"
    using displayer_loop_calls [of E m "displayers w1" w1] by blast
  obtain w3 ms where r: "producer_loop E ps (cout_endl w2) = Inr w3" "length ms = length ps"
    "producers w3 = producers (cout_endl w2)" "displayers w3 = displayers (cout_endl w2)"
    "calls w3 = calls (cout_endl w2) @ expected_calls (zip ps ms) (displayers (cout_endl w2))"
    using Cons.IH [of "cout_endl w2"] by blast
  have "producer_loop E (p # ps) w = Inr w3"
    using g l r by simp
  moreover have "length (m # ms) = length (p # ps)"
    using r by simp
  moreover have "producers w3 = producers w \<and> displayers w3 = displayers w"
    using f l r by (simp add: cout_endl_def)
  moreover have "calls w3 = calls w @ expected_calls (zip (p # ps) (m # ms)) (displayers w)"
    using f l r by (simp add: cout_endl_def expected_calls_def)
  ultimately show ?case
    by blast
qed

subsection \<open>Registration\<close>

text \<open>
  C7. The registries only grow. \<open>register_producer\<close> appends its one reference at
  the end of \<open>producers\<close> and leaves \<open>displayers\<close> alone, whatever the registry
  holds already (the reference may be there already; there is no bound on the length);
  \<open>register_displayer\<close> does the same for \<open>displayers\<close>; \<open>register_cpp_thingies\<close>
  appends the built-in producer to \<open>producers\<close> and the built-in displayer to
  \<open>displayers\<close>; \<open>run_demo\<close> returns and leaves both registries as they were. So no
  operation removes or reorders an entry.
\<close>

theorem registries_only_grow:
  "producers (register_producer p w) = producers w @ [p] \<and>
   displayers (register_producer p w) = displayers w \<and>
   displayers (register_displayer d w) = displayers w @ [d] \<and>
   producers (register_displayer d w) = producers w \<and>
   producers (register_cpp_thingies w) = producers w @ [cpp_producer] \<and>
   displayers (register_cpp_thingies w) = displayers w @ [cpp_displayer] \<and>
   (\<exists>w1. run_demo E w = Inr w1 \<and> producers w1 = producers w \<and> displayers w1 = displayers w)"
proof -
  have "\<exists>w1. run_demo E w = Inr w1 \<and> producers w1 = producers w \<and> displayers w1 = displayers w"
    using producer_loop_calls [of E "producers w" w] by (auto simp add: run_demo_def)
  then show ?thesis
    by (simp add: register_producer_def register_displayer_def register_cpp_thingies_def)
qed

theorem registries_only_grow_witness:
  "producers (register_producer cpp_producer (register_cpp_thingies startup)) =
     [cpp_producer, cpp_producer] \<and>
   displayers (register_displayer (ForeignDisplayer 3) (register_cpp_thingies startup)) =
     [cpp_displayer, ForeignDisplayer 3] \<and>
   (\<exists>w1. run_demo example_env (register_cpp_thingies startup) = Inr w1 \<and>
         producers w1 = [cpp_producer] \<and> displayers w1 = [cpp_displayer])"
  using registries_only_grow [of cpp_producer "register_cpp_thingies startup"
      "ForeignDisplayer 3" example_env]
    registries_only_grow [of cpp_producer startup cpp_displayer example_env]
  by (simp add: startup_def)

subsection \<open>The demo\<close>



text \<open>
  C8. Whatever the displayer registry holds, when the producer registry is empty
  \<open>run_demo\<close> returns the world it was given: nothing is written to standard output
  (and nothing else happens).
\<close>

theorem run_demo_no_producers:
  assumes "producers w = []"
  shows "run_demo E w = Inr w"
  using assms by (simp add: run_demo_def)

theorem run_demo_no_producers_witness:
  "run_demo example_env
     (register_displayer (ForeignDisplayer 2) (register_displayer cpp_displayer startup)) =
   Inr (register_displayer (ForeignDisplayer 2) (register_displayer cpp_displayer startup))"
  using run_demo_no_producers [of
      "register_displayer (ForeignDisplayer 2) (register_displayer cpp_displayer startup)"
      example_env]
  by (simp add: startup_def register_displayer_def)

lemma producer_loop_no_displayers:
  "displayers w = [] \<Longrightarrow>
     \<exists>w1. producer_loop E ps w = Inr w1 \<and> cout w1 = cout w @ replicate (length ps) newline"
proof (induction ps arbitrary: w)
  case Nil
  then show ?case
    by simp
next
  case (Cons p ps)
  obtain m w1 where g: "MessageProducer_get_message E p w = (m, w1)"
    by (cases "MessageProducer_get_message E p w")
  note f = get_message_frame [OF g]
  have d: "displayers (cout_endl w1) = []"
    using f Cons.prems by (simp add: cout_endl_def)
  obtain w3 where r: "producer_loop E ps (cout_endl w1) = Inr w3"
    "cout w3 = cout (cout_endl w1) @ replicate (length ps) newline"
    using Cons.IH [OF d] by blast
  have "producer_loop E (p # ps) w = Inr w3"
    using g f Cons.prems r by simp
  moreover have "cout w3 = cout w @ replicate (length (p # ps)) newline"
    using r f by (simp add: cout_endl_def replicate_app_Cons_same)
  ultimately show ?case
    by blast
qed

lemma expected_calls_no_displayers:
  "expected_calls pms [] = map (\<lambda>(p, m). Call_get_message p m) pms"
  by (induction pms) (auto simp add: expected_calls_def)

text \<open>
  C10. When the displayer registry is empty and the producer registry is not,
  \<open>run_demo\<close> returns and it has written something: exactly one end of line for each
  registered producer, so one empty line per producer and no line that begins with
  "Message:" or "From C++:". The virtual calls it made are one \<open>get_message\<close> for
  each registered producer, in registration order, and no other.
\<close>

theorem run_demo_no_displayers:
  assumes "displayers w = []" and "producers w \<noteq> []"
  shows "\<exists>w1 ms. run_demo E w = Inr w1 \<and>
     cout w1 = cout w @ replicate (length (producers w)) newline \<and>
     cout w1 \<noteq> cout w \<and>
     length ms = length (producers w) \<and>
     calls w1 = calls w @ map (\<lambda>(p, m). Call_get_message p m) (zip (producers w) ms)"
proof -
  obtain w1 where a: "producer_loop E (producers w) w = Inr w1"
    "cout w1 = cout w @ replicate (length (producers w)) newline"
    using producer_loop_no_displayers [OF assms(1), of E "producers w"] by blast
  obtain w2 ms where b: "producer_loop E (producers w) w = Inr w2"
    "length ms = length (producers w)"
    "calls w2 = calls w @ expected_calls (zip (producers w) ms) (displayers w)"
    using producer_loop_calls [of E "producers w" w] by blast
  have same: "w2 = w1"
    using a b by simp
  have "cout w1 \<noteq> cout w"
    using a assms(2) by simp
  moreover have "calls w1 = calls w @ map (\<lambda>(p, m). Call_get_message p m) (zip (producers w) ms)"
    using b same assms(1) by (simp add: expected_calls_no_displayers)
  ultimately show ?thesis
    using a b by (auto simp add: run_demo_def)
qed

theorem run_demo_no_displayers_witness:
  "\<exists>w1. run_demo example_env
       (register_producer (ForeignProducer 1) (register_producer cpp_producer startup)) = Inr w1 \<and>
     cout w1 = [newline, newline]"
  using run_demo_no_displayers [of
      "register_producer (ForeignProducer 1) (register_producer cpp_producer startup)"
      example_env]
  by (auto simp add: startup_def register_producer_def numeral_2_eq_2)








end
